theory Spec2Isabelle
  imports Main
begin

section \<open>Values, exceptions and the remote-access library\<close>

text \<open>
  The two source files are \<^verbatim>\<open>utilities/reddit_commenter.py\<close> (the class
  \<^verbatim>\<open>RedditCommentAPIWrapper\<close>) and \<^verbatim>\<open>tools/reddit/comment.py\<close> (the
  classes \<^verbatim>\<open>RedditCommentSchema\<close> and \<^verbatim>\<open>RedditCommentRun\<close>).

  A Python value stored in the \<^verbatim>\<open>values\<close> dictionary of the validator or in the
  input dictionary of a tool call is \<^verbatim>\<open>None\<close>, a string, or the client object
  made by \<^verbatim>\<open>praw.Reddit\<close>; \<open>'c\<close> is the type of client handles.
\<close>

datatype 'c pyval = PyNone | PyStr string | PyClient 'c

text \<open>
  The exceptions that leave the code. \<open>ConfigurationError key env_key\<close> is the failure
  of the credential resolver; \<open>ImportError msg\<close> is raised by the validator when
  \<^verbatim>\<open>import praw\<close> fails (the specification calls it DependencyMissingError);
  \<open>ValidationError field\<close> is a failed field or schema validation of the host framework;
  \<open>PrawException e\<close> is an exception \<open>e\<close> raised inside a call of the praw library: the
  source has no \<^verbatim>\<open>try\<close> around those calls, so \<open>e\<close> itself leaves the method
  (the specification calls it RemoteOperationError, carrying the underlying cause).
\<close>

datatype 'e exn =
    ConfigurationError string string
  | ImportError string
  | ValidationError string
  | PrawException 'e

text \<open>The comment object returned by \<^verbatim>\<open>submission.reply\<close>; the code reads its
  \<^verbatim>\<open>permalink\<close> attribute only.\<close>

record comment =
  permalink :: string

text \<open>
  The praw library is outside the repository: it is a parameter of the model. \<open>'w\<close> is the
  state of the remote service (and of the library), \<open>'c\<close> a client handle, \<open>'s\<close> a
  submission handle, \<open>'e\<close> an exception of the library. Each entry point reads and updates
  the remote state and either raises or returns.
  \<^item> \<open>Reddit client_id client_secret user_agent username password\<close> is the session factory
    \<^verbatim>\<open>praw.Reddit(client_id=..., ...)\<close>;
  \<^item> \<open>submission c sid\<close> is \<^verbatim>\<open>c.submission(id=sid)\<close>;
  \<^item> \<open>reply s text\<close> is \<^verbatim>\<open>s.reply(text)\<close>.
\<close>

record ('w, 'c, 's, 'e) praw =
  Reddit :: "string \<Rightarrow> string \<Rightarrow> string \<Rightarrow> string \<Rightarrow> string \<Rightarrow> 'w \<Rightarrow> ('e + 'c) \<times> 'w"
  submission :: "'c \<Rightarrow> string \<Rightarrow> 'w \<Rightarrow> ('e + 's) \<times> 'w"
  reply :: "'s \<Rightarrow> string \<Rightarrow> 'w \<Rightarrow> ('e + comment) \<times> 'w"

text \<open>
  What the program does to the outside is the sequence of library calls it issues, with
  their arguments. The I/O state holds that log next to the remote state; every call of the
  library made by the model appends its event.
\<close>

datatype ('c, 's) call =
    Call_Reddit string string string string string
  | Call_submission 'c string
  | Call_reply 's string

record ('w, 'c, 's) io =
  calls :: "('c, 's) call list"
  world :: 'w

section \<open>The wrapper: \<^verbatim>\<open>RedditCommentAPIWrapper\<close>\<close>

text \<open>The fields of the class, lines 45 to 52: the client and five optional strings.\<close>

record 'c RedditCommentAPIWrapper =
  reddit_client :: 'c
  reddit_client_id :: "string option"
  reddit_client_secret :: "string option"
  reddit_user_agent :: "string option"
  reddit_username :: "string option"
  reddit_password :: "string option"

text \<open>
  \<^verbatim>\<open>run\<close>, lines 104 to 111. The submission is looked up through the stored client,
  the text is posted as a reply to it, and the returned string is the fixed prefix followed
  by the permalink of the new comment. An exception of either call leaves the method as it
  is, and the statements after it are not run.
\<close>

definition run ::
  "('w, 'c, 's, 'e) praw \<Rightarrow> 'c RedditCommentAPIWrapper \<Rightarrow> string \<Rightarrow> string \<Rightarrow>
     ('w, 'c, 's) io \<Rightarrow> ('e exn + string) \<times> ('w, 'c, 's) io" where
  "run lib self submission_id comment_text st =
     (case submission lib (reddit_client self) submission_id (world st) of
        (r1, w1) \<Rightarrow>
          (let st1 = \<lparr>calls = calls st @ [Call_submission (reddit_client self) submission_id],
                      world = w1\<rparr>
           in case r1 of
                Inl e \<Rightarrow> (Inl (PrawException e), st1)
              | Inr sub \<Rightarrow>
                  (case reply lib sub comment_text w1 of
                     (r2, w2) \<Rightarrow>
                       (let st2 = \<lparr>calls = calls st1 @ [Call_reply sub comment_text],
                                   world = w2\<rparr>
                        in case r2 of
                             Inl e \<Rightarrow> (Inl (PrawException e), st2)
                           | Inr new_comment \<Rightarrow>
                               (Inr (''Comment posted! View at: https://www.reddit.com''
                                       @ permalink new_comment), st2)))))"

text \<open>
  Modelled from the spec: \<^verbatim>\<open>get_from_dict_or_env\<close> of \<^verbatim>\<open>langchain_core.utils\<close>,
  which the validator calls and which is not among the source files. The specification
  says of it: given an optional explicit value and a named fallback source, resolve the
  item to a concrete string, failing with a ConfigurationError if the item is resolvable
  from neither the explicit value nor the fallback. The explicit value is the string
  stored under \<open>key\<close> in the dictionary, the fallback is the environment variable
  \<open>env_key\<close>; the error carries both names.
\<close>

definition get_from_dict_or_env ::
  "(string \<rightharpoonup> 'c pyval) \<Rightarrow> string \<Rightarrow> string \<Rightarrow> (string \<rightharpoonup> string) \<Rightarrow> 'e exn + string" where
  "get_from_dict_or_env values key env_key environ =
     (case values key of
        Some (PyStr v) \<Rightarrow> Inr v
      | _ \<Rightarrow> (case environ env_key of
                Some v \<Rightarrow> Inr v
              | None \<Rightarrow> Inl (ConfigurationError key env_key)))"

text \<open>
  \<^verbatim>\<open>validate_environment\<close>, lines 54 to 102. \<open>environ\<close> is the process environment,
  \<open>praw_module\<close> is the praw library when \<^verbatim>\<open>import praw\<close> succeeds and \<open>None\<close>
  when it raises \<^verbatim>\<open>ImportError\<close>, \<open>values\<close> is the dictionary of the constructor's
  named parameters. The five credentials are resolved one after the other, each stored back
  into the dictionary; then praw is imported; then the session factory is called and the
  client is stored under \<^verbatim>\<open>reddit_client\<close>.
\<close>

definition validate_environment ::
  "(string \<rightharpoonup> string) \<Rightarrow> ('w, 'c, 's, 'e) praw option \<Rightarrow> (string \<rightharpoonup> 'c pyval) \<Rightarrow>
     ('w, 'c, 's) io \<Rightarrow> ('e exn + (string \<rightharpoonup> 'c pyval)) \<times> ('w, 'c, 's) io" where
  "validate_environment environ praw_module values st =
     (case get_from_dict_or_env values ''reddit_client_id'' ''REDDIT_CLIENT_ID'' environ of
        Inl e \<Rightarrow> (Inl e, st)
      | Inr client_id \<Rightarrow>
     (let values1 = values(''reddit_client_id'' \<mapsto> PyStr client_id) in
      case get_from_dict_or_env values1 ''reddit_client_secret'' ''REDDIT_CLIENT_SECRET'' environ of
        Inl e \<Rightarrow> (Inl e, st)
      | Inr client_secret \<Rightarrow>
     (let values2 = values1(''reddit_client_secret'' \<mapsto> PyStr client_secret) in
      case get_from_dict_or_env values2 ''reddit_user_agent'' ''REDDIT_USER_AGENT'' environ of
        Inl e \<Rightarrow> (Inl e, st)
      | Inr user_agent \<Rightarrow>
     (let values3 = values2(''reddit_user_agent'' \<mapsto> PyStr user_agent) in
      case get_from_dict_or_env values3 ''reddit_username'' ''REDDIT_USERNAME'' environ of
        Inl e \<Rightarrow> (Inl e, st)
      | Inr username \<Rightarrow>
     (let values4 = values3(''reddit_username'' \<mapsto> PyStr username) in
      case get_from_dict_or_env values4 ''reddit_password'' ''REDDIT_PASSWORD'' environ of
        Inl e \<Rightarrow> (Inl e, st)
      | Inr password \<Rightarrow>
     (let values5 = values4(''reddit_password'' \<mapsto> PyStr password) in
      case praw_module of
        None \<Rightarrow>
          (Inl (ImportError ''praw package not found. Please install with: pip install praw''),
           st)
      | Some lib \<Rightarrow>
          (case Reddit lib client_id client_secret user_agent username password (world st) of
             (r, w1) \<Rightarrow>
               (let st1 = \<lparr>calls = calls st @ [Call_Reddit client_id client_secret user_agent
                                                     username password],
                           world = w1\<rparr>
                in case r of
                     Inl e \<Rightarrow> (Inl (PrawException e), st1)
                   | Inr client \<Rightarrow>
                       (Inr (values5(''reddit_client'' \<mapsto> PyClient client)), st1)))))))))"

text \<open>
  The class is a pydantic model: after the validator has returned the dictionary, the
  declared fields are filled from it. \<^verbatim>\<open>reddit_client\<close> has no default, so it must
  be present (the validator stores the client there); a field of type
  \<^verbatim>\<open>Optional[str]\<close> must be present and hold \<^verbatim>\<open>None\<close> or a string.
\<close>

definition optional_str_field :: "(string \<rightharpoonup> 'c pyval) \<Rightarrow> string \<Rightarrow> 'e exn + string option" where
  "optional_str_field values key =
     (case values key of
        Some PyNone \<Rightarrow> Inr None
      | Some (PyStr v) \<Rightarrow> Inr (Some v)
      | _ \<Rightarrow> Inl (ValidationError key))"

definition model_fields :: "(string \<rightharpoonup> 'c pyval) \<Rightarrow> 'e exn + 'c RedditCommentAPIWrapper" where
  "model_fields values =
     (case values ''reddit_client'' of
        Some (PyClient c) \<Rightarrow>
          (case optional_str_field values ''reddit_client_id'' of
             Inl e \<Rightarrow> Inl e
           | Inr f1 \<Rightarrow>
          (case optional_str_field values ''reddit_client_secret'' of
             Inl e \<Rightarrow> Inl e
           | Inr f2 \<Rightarrow>
          (case optional_str_field values ''reddit_user_agent'' of
             Inl e \<Rightarrow> Inl e
           | Inr f3 \<Rightarrow>
          (case optional_str_field values ''reddit_username'' of
             Inl e \<Rightarrow> Inl e
           | Inr f4 \<Rightarrow>
          (case optional_str_field values ''reddit_password'' of
             Inl e \<Rightarrow> Inl e
           | Inr f5 \<Rightarrow>
               Inr \<lparr>reddit_client = c, reddit_client_id = f1, reddit_client_secret = f2,
                    reddit_user_agent = f3, reddit_username = f4, reddit_password = f5\<rparr>)))))
      | _ \<Rightarrow> Inl (ValidationError ''reddit_client''))"

text \<open>
  Constructing the wrapper, \<^verbatim>\<open>RedditCommentAPIWrapper(**kwargs)\<close>: the validator
  runs first (\<^verbatim>\<open>mode="before"\<close>), and an exception of it ends the construction.
\<close>

definition RedditCommentAPIWrapper_init ::
  "(string \<rightharpoonup> string) \<Rightarrow> ('w, 'c, 's, 'e) praw option \<Rightarrow> (string \<rightharpoonup> 'c pyval) \<Rightarrow>
     ('w, 'c, 's) io \<Rightarrow> ('e exn + 'c RedditCommentAPIWrapper) \<times> ('w, 'c, 's) io" where
  "RedditCommentAPIWrapper_init environ praw_module kwargs st =
     (case validate_environment environ praw_module kwargs st of
        (Inl e, st1) \<Rightarrow> (Inl e, st1)
      | (Inr values, st1) \<Rightarrow> (model_fields values, st1))"

text \<open>
  A sequence of \<^verbatim>\<open>run\<close> calls on one wrapper object, each given as the pair of its
  arguments. \<^verbatim>\<open>run\<close> assigns no attribute of \<^verbatim>\<open>self\<close>, so the object
  that a call leaves behind for the next one is the object it received; the I/O state is
  threaded through. The result is the list of the calls' results, in their order, the
  wrapper object as it stands after the last call, and the final I/O state.
\<close>

fun runs ::
  "('w, 'c, 's, 'e) praw \<Rightarrow> 'c RedditCommentAPIWrapper \<Rightarrow> (string \<times> string) list \<Rightarrow>
     ('w, 'c, 's) io \<Rightarrow>
     ('e exn + string) list \<times> 'c RedditCommentAPIWrapper \<times> ('w, 'c, 's) io" where
  "runs lib self [] st = ([], self, st)"
| "runs lib self ((submission_id, comment_text) # reqs) st =
     (case run lib self submission_id comment_text st of
        (r, st1) \<Rightarrow> (case runs lib self reqs st1 of (rs, self1, st2) \<Rightarrow> (r # rs, self1, st2)))"

text \<open>Reading the log: the session-factory calls, the handles on which submissions were
  looked up, and the reply calls.\<close>

fun factory_calls :: "('c, 's) call list \<Rightarrow> nat" where
  "factory_calls [] = 0"
| "factory_calls (Call_Reddit a b c d e # cs) = Suc (factory_calls cs)"
| "factory_calls (Call_submission h sid # cs) = factory_calls cs"
| "factory_calls (Call_reply s text # cs) = factory_calls cs"

fun lookup_handles :: "('c, 's) call list \<Rightarrow> 'c list" where
  "lookup_handles [] = []"
| "lookup_handles (Call_Reddit a b c d e # cs) = lookup_handles cs"
| "lookup_handles (Call_submission h sid # cs) = h # lookup_handles cs"
| "lookup_handles (Call_reply s text # cs) = lookup_handles cs"

fun reply_calls :: "('c, 's) call list \<Rightarrow> ('s \<times> string) list" where
  "reply_calls [] = []"
| "reply_calls (Call_Reddit a b c d e # cs) = reply_calls cs"
| "reply_calls (Call_submission h sid # cs) = reply_calls cs"
| "reply_calls (Call_reply s text # cs) = (s, text) # reply_calls cs"

section \<open>The tool: \<^verbatim>\<open>RedditCommentSchema\<close> and \<^verbatim>\<open>RedditCommentRun\<close>\<close>

text \<open>
  A field of a pydantic schema: its name, its annotation, its default (\<open>None\<close> when the
  \<^verbatim>\<open>Field(...)\<close> gives none, which makes the field required) and its description.
\<close>

datatype pytype = Str_type

record field_info =
  field_name :: string
  annotation :: pytype
  default_value :: "string option"
  field_description :: string

definition is_required :: "field_info \<Rightarrow> bool" where
  "is_required f = (default_value f = None)"

text \<open>\<^verbatim>\<open>RedditCommentSchema\<close>, lines 11 to 19 of \<^verbatim>\<open>comment.py\<close>.\<close>

definition RedditCommentSchema :: "field_info list" where
  "RedditCommentSchema =
     [\<lparr>field_name = ''submission_id'', annotation = Str_type, default_value = None,
       field_description = ''The ID of the Reddit submission to comment on. ''
         @ ''For instance, 'abc123' in the URL /r/test/comments/abc123/...''\<rparr>,
      \<lparr>field_name = ''comment_text'', annotation = Str_type, default_value = None,
       field_description = ''The text of the comment to post.''\<rparr>]"

text \<open>\<^verbatim>\<open>RedditCommentRun\<close>, lines 22 to 31: the fields of the tool object.\<close>

record 'c RedditCommentRun =
  name :: string
  description :: string
  api_wrapper :: "'c RedditCommentAPIWrapper"
  args_schema :: "field_info list"

text \<open>
  Constructing the tool. \<^verbatim>\<open>name\<close>, \<^verbatim>\<open>description\<close> and
  \<^verbatim>\<open>args_schema\<close> take their class defaults; \<^verbatim>\<open>api_wrapper\<close> is the wrapper
  given to the constructor, or, when none is given, the result of the default factory
  \<^verbatim>\<open>RedditCommentAPIWrapper()\<close>, which is the wrapper's construction with no named
  parameter.
\<close>

definition RedditCommentRun_fields :: "'c RedditCommentAPIWrapper \<Rightarrow> 'c RedditCommentRun" where
  "RedditCommentRun_fields w =
     \<lparr>name = ''reddit_comment'',
      description = ''A tool that posts a comment to a given Reddit submission by its ID. ''
        @ ''Useful when you want to respond to a specific post.'',
      api_wrapper = w,
      args_schema = RedditCommentSchema\<rparr>"

definition RedditCommentRun_init ::
  "(string \<rightharpoonup> string) \<Rightarrow> ('w, 'c, 's, 'e) praw option \<Rightarrow> 'c RedditCommentAPIWrapper option \<Rightarrow>
     ('w, 'c, 's) io \<Rightarrow> ('e exn + 'c RedditCommentRun) \<times> ('w, 'c, 's) io" where
  "RedditCommentRun_init environ praw_module given st =
     (case given of
        Some w \<Rightarrow> (Inr (RedditCommentRun_fields w), st)
      | None \<Rightarrow>
          (case RedditCommentAPIWrapper_init environ praw_module Map.empty st of
             (Inl e, st1) \<Rightarrow> (Inl e, st1)
           | (Inr w, st1) \<Rightarrow> (Inr (RedditCommentRun_fields w), st1)))"

text \<open>
  \<^verbatim>\<open>RedditCommentRun._run\<close>, lines 33 to 43: the two arguments are handed to the
  wrapper's \<^verbatim>\<open>run\<close>; \<^verbatim>\<open>run_manager\<close> is not used.
\<close>

definition RedditCommentRun_run ::
  "('w, 'c, 's, 'e) praw \<Rightarrow> 'c RedditCommentRun \<Rightarrow> string \<Rightarrow> string \<Rightarrow> 'm option \<Rightarrow>
     ('w, 'c, 's) io \<Rightarrow> ('e exn + string) \<times> ('w, 'c, 's) io" where
  "RedditCommentRun_run lib self submission_id comment_text run_manager st =
     run lib (api_wrapper self) submission_id comment_text st"

text \<open>
  Modelled from the spec: the host framework's handling of a tool call
  (\<^verbatim>\<open>BaseTool\<close> of \<^verbatim>\<open>langchain_core.tools\<close> with pydantic's validation), which
  is not among the source files. The specification says: the input schema accepts two
  fields, both required strings; omitting either fails schema validation before any remote
  call is attempted; the invocation returns the operation's string or propagates its error.
  \<open>validate_input\<close> checks the input dictionary against the schema, field by field, and
  keeps the validated strings; \<open>invoke\<close> validates and then calls
  \<^verbatim>\<open>_run\<close> with the two validated arguments.
\<close>

fun validate_input :: "field_info list \<Rightarrow> (string \<rightharpoonup> 'c pyval) \<Rightarrow> 'e exn + (string \<rightharpoonup> string)" where
  "validate_input [] tool_input = Inr Map.empty"
| "validate_input (f # fs) tool_input =
     (case tool_input (field_name f) of
        Some (PyStr v) \<Rightarrow>
          (case validate_input fs tool_input of
             Inl e \<Rightarrow> Inl e
           | Inr args \<Rightarrow> Inr (args(field_name f \<mapsto> v)))
      | Some other \<Rightarrow> Inl (ValidationError (field_name f))
      | None \<Rightarrow>
          (case default_value f of
             None \<Rightarrow> Inl (ValidationError (field_name f))
           | Some d \<Rightarrow>
               (case validate_input fs tool_input of
                  Inl e \<Rightarrow> Inl e
                | Inr args \<Rightarrow> Inr (args(field_name f \<mapsto> d)))))"

definition invoke ::
  "('w, 'c, 's, 'e) praw \<Rightarrow> 'c RedditCommentRun \<Rightarrow> (string \<rightharpoonup> 'c pyval) \<Rightarrow> 'm option \<Rightarrow>
     ('w, 'c, 's) io \<Rightarrow> ('e exn + string) \<times> ('w, 'c, 's) io" where
  "invoke lib self tool_input run_manager st =
     (case validate_input (args_schema self) tool_input of
        Inl e \<Rightarrow> (Inl e, st)
      | Inr args \<Rightarrow>
          (case args ''submission_id'' of
             None \<Rightarrow> (Inl (ValidationError ''submission_id''), st)
           | Some submission_id \<Rightarrow>
               (case args ''comment_text'' of
                  None \<Rightarrow> (Inl (ValidationError ''comment_text''), st)
                | Some comment_text \<Rightarrow>
                    RedditCommentRun_run lib self submission_id comment_text run_manager st)))"

section \<open>An example remote service\<close>

text \<open>
  A small instance of the library, used to run the definitions on concrete inputs. The
  remote state counts the comments created. The factory returns the handle \<open>1\<close>. The
  submissions \<^verbatim>\<open>abc123\<close> and \<^verbatim>\<open>locked\<close> exist, any other identifier is
  reported as not found. A reply to \<^verbatim>\<open>locked\<close> is refused; a reply to
  \<^verbatim>\<open>abc123\<close> creates a comment whose permalink is
  \<^verbatim>\<open>/r/test/comments/abc123/_/xyz789/\<close>.
\<close>

definition example_praw :: "(nat, nat, string, string) praw" where
  "example_praw =
     \<lparr>Reddit = (\<lambda>client_id client_secret user_agent username password w. (Inr 1, w)),
      submission = (\<lambda>c sid w.
         if sid = ''abc123'' \<or> sid = ''locked'' then (Inr sid, w) else (Inl ''NotFound'', w)),
      reply = (\<lambda>s text w.
         if s = ''locked'' then (Inl ''Forbidden'', w)
         else (Inr \<lparr>permalink = ''/r/test/comments/'' @ s @ ''/_/xyz789/''\<rparr>, Suc w))\<rparr>"

definition example_wrapper :: "nat RedditCommentAPIWrapper" where
  "example_wrapper =
     \<lparr>reddit_client = 1, reddit_client_id = Some ''my_id'',
      reddit_client_secret = Some ''my_secret'', reddit_user_agent = Some ''my_user_agent'',
      reddit_username = Some ''my_username'', reddit_password = Some ''my_password''\<rparr>"

definition example_kwargs :: "string \<rightharpoonup> nat pyval" where
  "example_kwargs =
     [''reddit_client_id'' \<mapsto> PyStr ''my_id'',
      ''reddit_client_secret'' \<mapsto> PyStr ''my_secret'',
      ''reddit_user_agent'' \<mapsto> PyStr ''my_user_agent'',
      ''reddit_username'' \<mapsto> PyStr ''my_username'',
      ''reddit_password'' \<mapsto> PyStr ''my_password'']"

definition example_environ :: "string \<rightharpoonup> string" where
  "example_environ =
     [''REDDIT_CLIENT_ID'' \<mapsto> ''env_id'',
      ''REDDIT_CLIENT_SECRET'' \<mapsto> ''env_secret'',
      ''REDDIT_USER_AGENT'' \<mapsto> ''env_user_agent'',
      ''REDDIT_USERNAME'' \<mapsto> ''env_username'',
      ''REDDIT_PASSWORD'' \<mapsto> ''env_password'']"

definition start :: "(nat, nat, string) io" where
  "start = \<lparr>calls = [], world = 0\<rparr>"

section \<open>The comment-posting operation\<close>

lemma run_result:
  "fst (run lib self sid text st) =
     (case submission lib (reddit_client self) sid (world st) of
        (Inl e, w1) \<Rightarrow> Inl (PrawException e)
      | (Inr sub, w1) \<Rightarrow>
          (case reply lib sub text w1 of
             (Inl e, w2) \<Rightarrow> Inl (PrawException e)
           | (Inr c, w2) \<Rightarrow>
               Inr (''Comment posted! View at: https://www.reddit.com'' @ permalink c)))"
  by (simp add: run_def Let_def split: prod.splits sum.splits)

lemma run_calls:
  "calls (snd (run lib self sid text st)) =
     calls st @ Call_submission (reddit_client self) sid #
       (case fst (submission lib (reddit_client self) sid (world st)) of
          Inl e \<Rightarrow> []
        | Inr sub \<Rightarrow> [Call_reply sub text])"
  by (simp add: run_def Let_def split: prod.splits sum.splits)

lemma run_world:
  "world (snd (run lib self sid text st)) =
     (case submission lib (reddit_client self) sid (world st) of
        (Inl e, w1) \<Rightarrow> w1
      | (Inr sub, w1) \<Rightarrow> snd (reply lib sub text w1))"
  by (simp add: run_def Let_def split: prod.splits sum.splits)

text \<open>
  Claim C1. When the lookup returns a submission and the reply to it returns a comment
  whose permalink is \<open>p\<close>, \<^verbatim>\<open>run\<close> returns exactly the string
  \<^verbatim>\<open>Comment posted! View at: https://www.reddit.com\<close> followed by \<open>p\<close>. In
  particular, for the submission \<^verbatim>\<open>abc123\<close>, the text
  \<^verbatim>\<open>Hello from my script!\<close> and the permalink
  \<^verbatim>\<open>/r/test/comments/abc123/_/xyz789/\<close> it returns
  \<^verbatim>\<open>Comment posted! View at: https://www.reddit.com/r/test/comments/abc123/_/xyz789/\<close>.
\<close>

theorem run_returns_permalink:
  assumes "submission lib (reddit_client self) sid (world st) = (Inr sub, w1)"
    and "reply lib sub text w1 = (Inr c, w2)"
    and "permalink c = p"
  shows "fst (run lib self sid text st) =
           Inr (''Comment posted! View at: https://www.reddit.com'' @ p) \<and>
         (sid = ''abc123'' \<and> text = ''Hello from my script!'' \<and>
          p = ''/r/test/comments/abc123/_/xyz789/'' \<longrightarrow>
          fst (run lib self sid text st) =
            Inr ''Comment posted! View at: https://www.reddit.com/r/test/comments/abc123/_/xyz789/'')"
proof -
  have first: "fst (run lib self sid text st) =
                 Inr (''Comment posted! View at: https://www.reddit.com'' @ p)"
    using assms by (simp add: run_result)
  show ?thesis
  proof (intro conjI impI)
    show "fst (run lib self sid text st) =
            Inr (''Comment posted! View at: https://www.reddit.com'' @ p)"
      by (rule first)
  next
    assume "sid = ''abc123'' \<and> text = ''Hello from my script!'' \<and>
            p = ''/r/test/comments/abc123/_/xyz789/''"
    then have "p = ''/r/test/comments/abc123/_/xyz789/''" by simp
    with first show "fst (run lib self sid text st) =
      Inr ''Comment posted! View at: https://www.reddit.com/r/test/comments/abc123/_/xyz789/''"
      by simp
  qed
qed

theorem run_returns_permalink_witness:
  "fst (run example_praw example_wrapper ''abc123'' ''Hello from my script!'' start) =
     Inr ''Comment posted! View at: https://www.reddit.com/r/test/comments/abc123/_/xyz789/''"
proof -
  have a: "submission example_praw (reddit_client example_wrapper) ''abc123'' (world start) =
             (Inr ''abc123'', 0)"
    by (simp add: example_praw_def start_def)
  have b: "reply example_praw ''abc123'' ''Hello from my script!'' 0 =
             (Inr \<lparr>permalink = ''/r/test/comments/abc123/_/xyz789/''\<rparr>, 1)"
    by (simp add: example_praw_def)
  have c: "permalink \<lparr>permalink = ''/r/test/comments/abc123/_/xyz789/''\<rparr> =
             ''/r/test/comments/abc123/_/xyz789/''"
    by simp
  from run_returns_permalink [OF a b c] show ?thesis by simp
qed

lemma reply_calls_append: "reply_calls (xs @ ys) = reply_calls xs @ reply_calls ys"
  by (induction xs rule: reply_calls.induct) simp_all

lemma factory_calls_append: "factory_calls (xs @ ys) = factory_calls xs + factory_calls ys"
  by (induction xs rule: factory_calls.induct) simp_all

lemma lookup_handles_append: "lookup_handles (xs @ ys) = lookup_handles xs @ lookup_handles ys"
  by (induction xs rule: lookup_handles.induct) simp_all

text \<open>
  Claim C3. Every failure of the submission lookup or of the comment creation makes
  \<^verbatim>\<open>run\<close> raise: when the lookup raises \<open>e\<close>, or the lookup returns a submission
  and the reply to it raises \<open>e\<close>, the result of \<^verbatim>\<open>run\<close> is the exception that
  carries \<open>e\<close>, the underlying cause, and it is no string. Nothing is retried: the remote
  state after \<^verbatim>\<open>run\<close> is the one left by the failed call.
\<close>

theorem run_failure_raises:
  assumes "submission lib (reddit_client self) sid (world st) = (Inl e, w1) \<or>
           (\<exists>sub w. submission lib (reddit_client self) sid (world st) = (Inr sub, w) \<and>
                    reply lib sub text w = (Inl e, w1))"
  shows "fst (run lib self sid text st) = Inl (PrawException e) \<and>
         (\<forall>s. fst (run lib self sid text st) \<noteq> Inr s) \<and>
         world (snd (run lib self sid text st)) = w1"
  using assms by (auto simp add: run_result run_world)

theorem run_failure_raises_witness:
  "fst (run example_praw example_wrapper ''zzz999'' ''Hello'' start) =
     Inl (PrawException ''NotFound'') \<and>
   fst (run example_praw example_wrapper ''locked'' ''Hello'' start) =
     Inl (PrawException ''Forbidden'')"
proof -
  have a: "submission example_praw (reddit_client example_wrapper) ''zzz999'' (world start) =
             (Inl ''NotFound'', 0)"
    by (simp add: example_praw_def start_def)
  have b: "\<exists>sub w. submission example_praw (reddit_client example_wrapper) ''locked''
                       (world start) = (Inr sub, w) \<and>
                    reply example_praw sub ''Hello'' w = (Inl ''Forbidden'', 0)"
    by (simp add: example_praw_def start_def)
  from run_failure_raises [OF disjI1, OF a, of "''Hello''"]
    run_failure_raises [OF disjI2, OF b]
  show ?thesis by simp
qed

text \<open>
  Claim C7. \<^verbatim>\<open>run\<close> is not idempotent and nothing is deduplicated. Invoking it a
  second time with the same arguments never leaves the state of the first invocation: the
  second invocation issues its own remote calls. When both lookups return a submission,
  the two invocations issue two reply calls, one each, with the same text.
\<close>

theorem run_twice_posts_twice:
  "snd (run lib self sid text (snd (run lib self sid text st))) \<noteq> snd (run lib self sid text st) \<and>
   (submission lib (reddit_client self) sid (world st) = (Inr sub1, w1) \<and>
    submission lib (reddit_client self) sid (world (snd (run lib self sid text st))) = (Inr sub2, w2)
    \<longrightarrow>
    reply_calls (calls (snd (run lib self sid text (snd (run lib self sid text st))))) =
      reply_calls (calls st) @ [(sub1, text), (sub2, text)])"
proof (intro conjI impI)
  have "length (calls (snd (run lib self sid text (snd (run lib self sid text st))))) >
        length (calls (snd (run lib self sid text st)))"
    by (subst run_calls) simp
  then show "snd (run lib self sid text (snd (run lib self sid text st))) \<noteq>
             snd (run lib self sid text st)"
    by auto
next
  assume h: "submission lib (reddit_client self) sid (world st) = (Inr sub1, w1) \<and>
    submission lib (reddit_client self) sid (world (snd (run lib self sid text st))) = (Inr sub2, w2)"
  have one: "calls (snd (run lib self sid text st)) =
               calls st @ [Call_submission (reddit_client self) sid, Call_reply sub1 text]"
    using h by (simp add: run_calls)
  have two: "calls (snd (run lib self sid text (snd (run lib self sid text st)))) =
               calls (snd (run lib self sid text st)) @
                 [Call_submission (reddit_client self) sid, Call_reply sub2 text]"
    using h by (simp add: run_calls [of lib self sid "text" "snd (run lib self sid text st)"])
  show "reply_calls (calls (snd (run lib self sid text (snd (run lib self sid text st))))) =
      reply_calls (calls st) @ [(sub1, text), (sub2, text)]"
    by (simp add: two one reply_calls_append)
qed

lemma example_run_abc123:
  "run example_praw example_wrapper ''abc123'' text \<lparr>calls = cs, world = n\<rparr> =
     (Inr ''Comment posted! View at: https://www.reddit.com/r/test/comments/abc123/_/xyz789/'',
      \<lparr>calls = cs @ [Call_submission 1 ''abc123'', Call_reply ''abc123'' text],
       world = Suc n\<rparr>)"
  by (simp add: run_def example_praw_def example_wrapper_def)

theorem run_twice_posts_twice_witness:
  "reply_calls (calls (snd (run example_praw example_wrapper ''abc123'' ''Hello''
      (snd (run example_praw example_wrapper ''abc123'' ''Hello'' start))))) =
     [(''abc123'', ''Hello''), (''abc123'', ''Hello'')] \<and>
   world (snd (run example_praw example_wrapper ''abc123'' ''Hello''
      (snd (run example_praw example_wrapper ''abc123'' ''Hello'' start)))) = 2"
proof -
  have a: "submission example_praw (reddit_client example_wrapper) ''abc123'' (world start) =
             (Inr ''abc123'', 0)"
    by (simp add: example_praw_def start_def)
  have b: "submission example_praw (reddit_client example_wrapper) ''abc123''
             (world (snd (run example_praw example_wrapper ''abc123'' ''Hello'' start))) =
             (Inr ''abc123'', 1)"
    by (simp add: start_def example_run_abc123) (simp add: example_praw_def)
  have c: "world (snd (run example_praw example_wrapper ''abc123'' ''Hello''
      (snd (run example_praw example_wrapper ''abc123'' ''Hello'' start)))) = 2"
    by (simp add: start_def example_run_abc123)
  from run_twice_posts_twice [of example_praw example_wrapper "''abc123''" "''Hello''" start
      "''abc123''" 0 "''abc123''" 1] a b c
  show ?thesis by (simp add: start_def)
qed

text \<open>
  Claim C8. For every pair of strings, the tool's \<^verbatim>\<open>_run\<close> gives exactly what the
  \<^verbatim>\<open>run\<close> of its wrapper gives on the same two arguments, the returned string or
  the raised exception, and the same I/O state: the tool adds no behaviour.
\<close>

theorem tool_run_delegates:
  "RedditCommentRun_run lib tool sid text run_manager st =
     run lib (api_wrapper tool) sid text st"
  by (simp add: RedditCommentRun_run_def)

text \<open>
  Claim C10. \<^verbatim>\<open>run\<close> validates nothing locally. For every submission identifier
  and comment text, the empty strings included, the first thing it does is the remote
  lookup, which receives the identifier unchanged; whenever the lookup returns a
  submission, the reply call receives the text unchanged; and the result is decided by the
  answers of the two remote calls alone, so there is no local rejection.
\<close>

theorem run_forwards_arguments:
  "calls (snd (run lib self sid text st)) =
     calls st @ Call_submission (reddit_client self) sid #
       (case fst (submission lib (reddit_client self) sid (world st)) of
          Inl e \<Rightarrow> []
        | Inr sub \<Rightarrow> [Call_reply sub text]) \<and>
   calls (snd (run lib self [] [] st)) =
     calls st @ Call_submission (reddit_client self) [] #
       (case fst (submission lib (reddit_client self) [] (world st)) of
          Inl e \<Rightarrow> []
        | Inr sub \<Rightarrow> [Call_reply sub []]) \<and>
   fst (run lib self sid text st) =
     (case submission lib (reddit_client self) sid (world st) of
        (Inl e, w1) \<Rightarrow> Inl (PrawException e)
      | (Inr sub, w1) \<Rightarrow>
          (case reply lib sub text w1 of
             (Inl e, w2) \<Rightarrow> Inl (PrawException e)
           | (Inr c, w2) \<Rightarrow>
               Inr (''Comment posted! View at: https://www.reddit.com'' @ permalink c)))"
  by (simp only: run_calls run_result simp_thms)

section \<open>Construction of the wrapper\<close>

lemma get_from_dict_or_env_upd:
  "k \<noteq> key \<Longrightarrow>
   get_from_dict_or_env (values(k \<mapsto> v)) key env_key environ =
     get_from_dict_or_env values key env_key environ"
  by (simp add: get_from_dict_or_env_def)

lemma get_from_dict_or_env_absent:
  "values key = None \<Longrightarrow> environ env_key = None \<Longrightarrow>
   get_from_dict_or_env values key env_key environ = Inl (ConfigurationError key env_key)"
  by (simp add: get_from_dict_or_env_def)

lemma get_from_dict_or_env_Inl:
  "get_from_dict_or_env values key env_key environ = Inl e \<Longrightarrow>
   e = ConfigurationError key env_key"
  by (auto simp add: get_from_dict_or_env_def split: option.splits pyval.splits)

lemma validate_environment_fail1:
  "get_from_dict_or_env values ''reddit_client_id'' ''REDDIT_CLIENT_ID'' environ = Inl e \<Longrightarrow>
   validate_environment environ praw_module values st = (Inl e, st)"
  by (simp add: validate_environment_def)

lemma validate_environment_fail2:
  fixes praw_module :: "('w, 'c, 's, 'e) praw option"
  assumes "(get_from_dict_or_env values ''reddit_client_id'' ''REDDIT_CLIENT_ID'' environ
              :: 'e exn + string) = Inr v1"
    and "get_from_dict_or_env values ''reddit_client_secret'' ''REDDIT_CLIENT_SECRET'' environ
           = Inl e"
  shows "validate_environment environ praw_module values st = (Inl e, st)"
  using assms by (simp add: validate_environment_def Let_def get_from_dict_or_env_upd)

lemma validate_environment_fail3:
  fixes praw_module :: "('w, 'c, 's, 'e) praw option"
  assumes "(get_from_dict_or_env values ''reddit_client_id'' ''REDDIT_CLIENT_ID'' environ
              :: 'e exn + string) = Inr v1"
    and "(get_from_dict_or_env values ''reddit_client_secret'' ''REDDIT_CLIENT_SECRET'' environ
              :: 'e exn + string) = Inr v2"
    and "get_from_dict_or_env values ''reddit_user_agent'' ''REDDIT_USER_AGENT'' environ
           = Inl e"
  shows "validate_environment environ praw_module values st = (Inl e, st)"
  using assms by (simp add: validate_environment_def Let_def get_from_dict_or_env_upd)

lemma validate_environment_fail4:
  fixes praw_module :: "('w, 'c, 's, 'e) praw option"
  assumes "(get_from_dict_or_env values ''reddit_client_id'' ''REDDIT_CLIENT_ID'' environ
              :: 'e exn + string) = Inr v1"
    and "(get_from_dict_or_env values ''reddit_client_secret'' ''REDDIT_CLIENT_SECRET'' environ
              :: 'e exn + string) = Inr v2"
    and "(get_from_dict_or_env values ''reddit_user_agent'' ''REDDIT_USER_AGENT'' environ
              :: 'e exn + string) = Inr v3"
    and "get_from_dict_or_env values ''reddit_username'' ''REDDIT_USERNAME'' environ
           = Inl e"
  shows "validate_environment environ praw_module values st = (Inl e, st)"
  using assms by (simp add: validate_environment_def Let_def get_from_dict_or_env_upd)

lemma validate_environment_fail5:
  fixes praw_module :: "('w, 'c, 's, 'e) praw option"
  assumes "(get_from_dict_or_env values ''reddit_client_id'' ''REDDIT_CLIENT_ID'' environ
              :: 'e exn + string) = Inr v1"
    and "(get_from_dict_or_env values ''reddit_client_secret'' ''REDDIT_CLIENT_SECRET'' environ
              :: 'e exn + string) = Inr v2"
    and "(get_from_dict_or_env values ''reddit_user_agent'' ''REDDIT_USER_AGENT'' environ
              :: 'e exn + string) = Inr v3"
    and "(get_from_dict_or_env values ''reddit_username'' ''REDDIT_USERNAME'' environ
              :: 'e exn + string) = Inr v4"
    and "get_from_dict_or_env values ''reddit_password'' ''REDDIT_PASSWORD'' environ
           = Inl e"
  shows "validate_environment environ praw_module values st = (Inl e, st)"
  using assms by (simp add: validate_environment_def Let_def get_from_dict_or_env_upd)

lemma validate_environment_resolved:
  fixes praw_module :: "('w, 'c, 's, 'e) praw option"
  assumes "(get_from_dict_or_env values ''reddit_client_id'' ''REDDIT_CLIENT_ID'' environ
              :: 'e exn + string) = Inr v1"
    and "(get_from_dict_or_env values ''reddit_client_secret'' ''REDDIT_CLIENT_SECRET'' environ
              :: 'e exn + string) = Inr v2"
    and "(get_from_dict_or_env values ''reddit_user_agent'' ''REDDIT_USER_AGENT'' environ
              :: 'e exn + string) = Inr v3"
    and "(get_from_dict_or_env values ''reddit_username'' ''REDDIT_USERNAME'' environ
              :: 'e exn + string) = Inr v4"
    and "(get_from_dict_or_env values ''reddit_password'' ''REDDIT_PASSWORD'' environ
              :: 'e exn + string) = Inr v5"
  shows "validate_environment environ praw_module values st =
    (case praw_module of
       None \<Rightarrow>
         (Inl (ImportError ''praw package not found. Please install with: pip install praw''),
          st)
     | Some lib \<Rightarrow>
         (case Reddit lib v1 v2 v3 v4 v5 (world st) of
            (Inl e, w1) \<Rightarrow>
              (Inl (PrawException e),
               \<lparr>calls = calls st @ [Call_Reddit v1 v2 v3 v4 v5], world = w1\<rparr>)
          | (Inr client, w1) \<Rightarrow>
              (Inr (values
                 (''reddit_client_id'' \<mapsto> PyStr v1, ''reddit_client_secret'' \<mapsto> PyStr v2,
                  ''reddit_user_agent'' \<mapsto> PyStr v3, ''reddit_username'' \<mapsto> PyStr v4,
                  ''reddit_password'' \<mapsto> PyStr v5, ''reddit_client'' \<mapsto> PyClient client)),
               \<lparr>calls = calls st @ [Call_Reddit v1 v2 v3 v4 v5], world = w1\<rparr>)))"
  using assms
  by (simp add: validate_environment_def Let_def get_from_dict_or_env_upd
           split: option.splits prod.splits sum.splits)

lemma model_fields_validated:
  "model_fields (values
     (''reddit_client_id'' \<mapsto> PyStr v1, ''reddit_client_secret'' \<mapsto> PyStr v2,
      ''reddit_user_agent'' \<mapsto> PyStr v3, ''reddit_username'' \<mapsto> PyStr v4,
      ''reddit_password'' \<mapsto> PyStr v5, ''reddit_client'' \<mapsto> PyClient c)) =
   Inr \<lparr>reddit_client = c, reddit_client_id = Some v1, reddit_client_secret = Some v2,
        reddit_user_agent = Some v3, reddit_username = Some v4, reddit_password = Some v5\<rparr>"
  by (simp add: model_fields_def optional_str_field_def)

lemma init_resolved:
  fixes lib :: "('w, 'c, 's, 'e) praw"
  assumes "(get_from_dict_or_env kwargs ''reddit_client_id'' ''REDDIT_CLIENT_ID'' environ
              :: 'e exn + string) = Inr v1"
    and "(get_from_dict_or_env kwargs ''reddit_client_secret'' ''REDDIT_CLIENT_SECRET'' environ
              :: 'e exn + string) = Inr v2"
    and "(get_from_dict_or_env kwargs ''reddit_user_agent'' ''REDDIT_USER_AGENT'' environ
              :: 'e exn + string) = Inr v3"
    and "(get_from_dict_or_env kwargs ''reddit_username'' ''REDDIT_USERNAME'' environ
              :: 'e exn + string) = Inr v4"
    and "(get_from_dict_or_env kwargs ''reddit_password'' ''REDDIT_PASSWORD'' environ
              :: 'e exn + string) = Inr v5"
  shows "RedditCommentAPIWrapper_init environ (Some lib) kwargs st =
    (case Reddit lib v1 v2 v3 v4 v5 (world st) of
       (Inl e, w1) \<Rightarrow>
         (Inl (PrawException e),
          \<lparr>calls = calls st @ [Call_Reddit v1 v2 v3 v4 v5], world = w1\<rparr>)
     | (Inr c, w1) \<Rightarrow>
         (Inr \<lparr>reddit_client = c, reddit_client_id = Some v1, reddit_client_secret = Some v2,
               reddit_user_agent = Some v3, reddit_username = Some v4,
               reddit_password = Some v5\<rparr>,
          \<lparr>calls = calls st @ [Call_Reddit v1 v2 v3 v4 v5], world = w1\<rparr>))"
  unfolding RedditCommentAPIWrapper_init_def validate_environment_resolved [OF assms]
  by (simp add: model_fields_validated split: prod.splits sum.splits)

lemma init_no_library:
  fixes praw_module :: "('w, 'c, 's, 'e) praw option"
  assumes "(get_from_dict_or_env kwargs ''reddit_client_id'' ''REDDIT_CLIENT_ID'' environ
              :: 'e exn + string) = Inr v1"
    and "(get_from_dict_or_env kwargs ''reddit_client_secret'' ''REDDIT_CLIENT_SECRET'' environ
              :: 'e exn + string) = Inr v2"
    and "(get_from_dict_or_env kwargs ''reddit_user_agent'' ''REDDIT_USER_AGENT'' environ
              :: 'e exn + string) = Inr v3"
    and "(get_from_dict_or_env kwargs ''reddit_username'' ''REDDIT_USERNAME'' environ
              :: 'e exn + string) = Inr v4"
    and "(get_from_dict_or_env kwargs ''reddit_password'' ''REDDIT_PASSWORD'' environ
              :: 'e exn + string) = Inr v5"
    and "praw_module = None"
  shows "RedditCommentAPIWrapper_init environ praw_module kwargs st =
    (Inl (ImportError ''praw package not found. Please install with: pip install praw''), st)"
  unfolding RedditCommentAPIWrapper_init_def
    validate_environment_resolved [OF assms(1) assms(2) assms(3) assms(4) assms(5)]
  using assms(6) by simp

lemma init_validator_fails:
  "validate_environment environ praw_module kwargs st = (Inl e, st1) \<Longrightarrow>
   RedditCommentAPIWrapper_init environ praw_module kwargs st = (Inl e, st1)"
  by (simp add: RedditCommentAPIWrapper_init_def)


lemma validate_environment_missing:
  fixes praw_module :: "('w, 'c, 's, 'e) praw option"
  assumes "(values ''reddit_client_id'' = None \<and> environ ''REDDIT_CLIENT_ID'' = None) \<or>
           (values ''reddit_client_secret'' = None \<and> environ ''REDDIT_CLIENT_SECRET'' = None) \<or>
           (values ''reddit_user_agent'' = None \<and> environ ''REDDIT_USER_AGENT'' = None) \<or>
           (values ''reddit_username'' = None \<and> environ ''REDDIT_USERNAME'' = None) \<or>
           (values ''reddit_password'' = None \<and> environ ''REDDIT_PASSWORD'' = None)"
  shows "\<exists>key env_key. validate_environment environ praw_module values st =
           (Inl (ConfigurationError key env_key), st)"
proof -
  let ?r1 = "get_from_dict_or_env values ''reddit_client_id'' ''REDDIT_CLIENT_ID'' environ
               :: 'e exn + string"
  let ?r2 = "get_from_dict_or_env values ''reddit_client_secret'' ''REDDIT_CLIENT_SECRET'' environ
               :: 'e exn + string"
  let ?r3 = "get_from_dict_or_env values ''reddit_user_agent'' ''REDDIT_USER_AGENT'' environ
               :: 'e exn + string"
  let ?r4 = "get_from_dict_or_env values ''reddit_username'' ''REDDIT_USERNAME'' environ
               :: 'e exn + string"
  let ?r5 = "get_from_dict_or_env values ''reddit_password'' ''REDDIT_PASSWORD'' environ
               :: 'e exn + string"
  have some: "isl ?r1 \<or> isl ?r2 \<or> isl ?r3 \<or> isl ?r4 \<or> isl ?r5"
    using assms by (auto simp add: get_from_dict_or_env_absent)
  show ?thesis
  proof (cases ?r1)
    case (Inl e)
    from validate_environment_fail1 [OF Inl] get_from_dict_or_env_Inl [OF Inl]
    show ?thesis by blast
  next
    case r1: (Inr v1)
    show ?thesis
    proof (cases ?r2)
      case (Inl e)
      from validate_environment_fail2 [OF r1 Inl] get_from_dict_or_env_Inl [OF Inl]
      show ?thesis by blast
    next
      case r2: (Inr v2)
      show ?thesis
      proof (cases ?r3)
        case (Inl e)
        from validate_environment_fail3 [OF r1 r2 Inl] get_from_dict_or_env_Inl [OF Inl]
        show ?thesis by blast
      next
        case r3: (Inr v3)
        show ?thesis
        proof (cases ?r4)
          case (Inl e)
          from validate_environment_fail4 [OF r1 r2 r3 Inl] get_from_dict_or_env_Inl [OF Inl]
          show ?thesis by blast
        next
          case r4: (Inr v4)
          show ?thesis
          proof (cases ?r5)
            case (Inl e)
            from validate_environment_fail5 [OF r1 r2 r3 r4 Inl] get_from_dict_or_env_Inl [OF Inl]
            show ?thesis by blast
          next
            case r5: (Inr v5)
            from some r1 r2 r3 r4 r5 show ?thesis by simp
          qed
        qed
      qed
    qed
  qed
qed

text \<open>
  Claim C2. For each of the five credential fields: when the constructor is given no value
  for it and the environment variable of the field is not set, the construction of the
  wrapper fails with a ConfigurationError, whatever the other fields and whether or not
  praw can be imported, and the I/O state is left as it was: the session factory is not
  called and no remote connection is attempted.
\<close>

theorem missing_credential_fails:
  fixes praw_module :: "('w, 'c, 's, 'e) praw option"
  assumes "(kwargs ''reddit_client_id'' = None \<and> environ ''REDDIT_CLIENT_ID'' = None) \<or>
           (kwargs ''reddit_client_secret'' = None \<and> environ ''REDDIT_CLIENT_SECRET'' = None) \<or>
           (kwargs ''reddit_user_agent'' = None \<and> environ ''REDDIT_USER_AGENT'' = None) \<or>
           (kwargs ''reddit_username'' = None \<and> environ ''REDDIT_USERNAME'' = None) \<or>
           (kwargs ''reddit_password'' = None \<and> environ ''REDDIT_PASSWORD'' = None)"
  shows "(\<exists>key env_key. fst (RedditCommentAPIWrapper_init environ praw_module kwargs st) =
            Inl (ConfigurationError key env_key)) \<and>
         snd (RedditCommentAPIWrapper_init environ praw_module kwargs st) = st \<and>
         factory_calls (calls (snd (RedditCommentAPIWrapper_init environ praw_module kwargs st))) =
           factory_calls (calls st)"
proof -
  from validate_environment_missing [OF assms]
  obtain key env_key where
    "validate_environment environ praw_module kwargs st =
       (Inl (ConfigurationError key env_key), st)"
    by blast
  then have "RedditCommentAPIWrapper_init environ praw_module kwargs st =
               (Inl (ConfigurationError key env_key), st)"
    by (rule init_validator_fails)
  then show ?thesis by simp
qed

theorem missing_credential_fails_witness:
  "fst (RedditCommentAPIWrapper_init Map.empty (Some example_praw)
          (example_kwargs(''reddit_password'' := None)) start) =
     Inl (ConfigurationError ''reddit_password'' ''REDDIT_PASSWORD'') \<and>
   snd (RedditCommentAPIWrapper_init Map.empty (Some example_praw)
          (example_kwargs(''reddit_password'' := None)) start) = start \<and>
   fst (RedditCommentAPIWrapper_init (example_environ(''REDDIT_USER_AGENT'' := None)) None
          (Map.empty :: string \<rightharpoonup> nat pyval) start) =
     (Inl (ConfigurationError ''reddit_user_agent'' ''REDDIT_USER_AGENT'') :: string exn + _) \<and>
   snd (RedditCommentAPIWrapper_init (example_environ(''REDDIT_USER_AGENT'' := None))
          (None :: (nat, nat, string, string) praw option)
          (Map.empty :: string \<rightharpoonup> nat pyval) start) = start"
proof -
  have a: "(example_kwargs(''reddit_password'' := None)) ''reddit_password'' = None \<and>
           (Map.empty :: string \<rightharpoonup> string) ''REDDIT_PASSWORD'' = None"
    by simp
  have b: "(Map.empty :: string \<rightharpoonup> nat pyval) ''reddit_user_agent'' = None \<and>
           (example_environ(''REDDIT_USER_AGENT'' := None)) ''REDDIT_USER_AGENT'' = None"
    by simp
  have c: "fst (RedditCommentAPIWrapper_init Map.empty (Some example_praw)
                 (example_kwargs(''reddit_password'' := None)) start) =
             Inl (ConfigurationError ''reddit_password'' ''REDDIT_PASSWORD'')"
    by (simp add: RedditCommentAPIWrapper_init_def validate_environment_def
          get_from_dict_or_env_def example_kwargs_def)
  have d: "fst (RedditCommentAPIWrapper_init (example_environ(''REDDIT_USER_AGENT'' := None))
                 (None :: (nat, nat, string, string) praw option)
                 (Map.empty :: string \<rightharpoonup> nat pyval) start) =
             Inl (ConfigurationError ''reddit_user_agent'' ''REDDIT_USER_AGENT'')"
    by (simp add: RedditCommentAPIWrapper_init_def validate_environment_def
          get_from_dict_or_env_def example_environ_def)
  from missing_credential_fails [of "example_kwargs(''reddit_password'' := None)" Map.empty
      "Some example_praw" start] a
    missing_credential_fails [of "Map.empty :: string \<rightharpoonup> nat pyval"
      "example_environ(''REDDIT_USER_AGENT'' := None)"
      "None :: (nat, nat, string, string) praw option" start] b c d
  show ?thesis by simp
qed


text \<open>
  Claim C9. The validator resolves the five credentials in the fixed order client id,
  client secret, user agent, username, password, and only then looks at the availability of
  praw. Reading the five resolutions on the dictionary as it was given: the exception
  raised is that of the first credential, in this order, which does not resolve, whatever
  the later ones are and whatever \<open>praw_module\<close> is; only when all five resolve does a
  missing library raise the \<^verbatim>\<open>ImportError\<close>. Hence, when a credential is missing
  and the library is unavailable too, the configuration error is raised and not the
  missing-dependency error.
\<close>

theorem credentials_resolved_in_order:
  fixes praw_module :: "('w, 'c, 's, 'e) praw option"
  assumes "r1 = get_from_dict_or_env vals ''reddit_client_id'' ''REDDIT_CLIENT_ID'' environ"
    and "r2 = get_from_dict_or_env vals ''reddit_client_secret'' ''REDDIT_CLIENT_SECRET'' environ"
    and "r3 = get_from_dict_or_env vals ''reddit_user_agent'' ''REDDIT_USER_AGENT'' environ"
    and "r4 = get_from_dict_or_env vals ''reddit_username'' ''REDDIT_USERNAME'' environ"
    and "r5 = get_from_dict_or_env vals ''reddit_password'' ''REDDIT_PASSWORD'' environ"
    and "result = validate_environment environ praw_module vals st"
  shows "(case r1 of Inl e \<Rightarrow> result = (Inl e, st) | Inr v1 \<Rightarrow>
         (case r2 of Inl e \<Rightarrow> result = (Inl e, st) | Inr v2 \<Rightarrow>
         (case r3 of Inl e \<Rightarrow> result = (Inl e, st) | Inr v3 \<Rightarrow>
         (case r4 of Inl e \<Rightarrow> result = (Inl e, st) | Inr v4 \<Rightarrow>
         (case r5 of Inl e \<Rightarrow> result = (Inl e, st) | Inr v5 \<Rightarrow>
            (praw_module = None \<longrightarrow>
             result = (Inl (ImportError
               ''praw package not found. Please install with: pip install praw''), st))))))) \<and>
         (((vals ''reddit_client_id'' = None \<and> environ ''REDDIT_CLIENT_ID'' = None) \<or>
           (vals ''reddit_client_secret'' = None \<and> environ ''REDDIT_CLIENT_SECRET'' = None) \<or>
           (vals ''reddit_user_agent'' = None \<and> environ ''REDDIT_USER_AGENT'' = None) \<or>
           (vals ''reddit_username'' = None \<and> environ ''REDDIT_USERNAME'' = None) \<or>
           (vals ''reddit_password'' = None \<and> environ ''REDDIT_PASSWORD'' = None)) \<and>
          praw_module = None \<longrightarrow>
          (\<exists>key env_key. result = (Inl (ConfigurationError key env_key), st)))"
proof (intro conjI impI)
  show "(case r1 of Inl e \<Rightarrow> result = (Inl e, st) | Inr v1 \<Rightarrow>
         (case r2 of Inl e \<Rightarrow> result = (Inl e, st) | Inr v2 \<Rightarrow>
         (case r3 of Inl e \<Rightarrow> result = (Inl e, st) | Inr v3 \<Rightarrow>
         (case r4 of Inl e \<Rightarrow> result = (Inl e, st) | Inr v4 \<Rightarrow>
         (case r5 of Inl e \<Rightarrow> result = (Inl e, st) | Inr v5 \<Rightarrow>
            (praw_module = None \<longrightarrow>
             result = (Inl (ImportError
               ''praw package not found. Please install with: pip install praw''), st)))))))"
  proof -
    note g = assms(1-5) [symmetric]
    have res: "validate_environment environ praw_module vals st = result"
      using assms(6) by simp
    show ?thesis
    proof (cases r1)
      case (Inl e)
      have "result = (Inl e, st)"
        using validate_environment_fail1 [of vals environ e praw_module st]
        by (simp add: g Inl res)
      then show ?thesis by (simp add: Inl)
    next
      case a1: (Inr v1)
      show ?thesis
      proof (cases r2)
        case (Inl e)
        have "result = (Inl e, st)"
          using validate_environment_fail2 [of vals environ v1 e praw_module st]
          by (simp add: g a1 Inl res)
        then show ?thesis by (simp add: a1 Inl)
      next
        case a2: (Inr v2)
        show ?thesis
        proof (cases r3)
          case (Inl e)
          have "result = (Inl e, st)"
            using validate_environment_fail3 [of vals environ v1 v2 e praw_module st]
            by (simp add: g a1 a2 Inl res)
          then show ?thesis by (simp add: a1 a2 Inl)
        next
          case a3: (Inr v3)
          show ?thesis
          proof (cases r4)
            case (Inl e)
            have "result = (Inl e, st)"
              using validate_environment_fail4 [of vals environ v1 v2 v3 e praw_module st]
              by (simp add: g a1 a2 a3 Inl res)
            then show ?thesis by (simp add: a1 a2 a3 Inl)
          next
            case a4: (Inr v4)
            show ?thesis
            proof (cases r5)
              case (Inl e)
              have "result = (Inl e, st)"
                using validate_environment_fail5 [of vals environ v1 v2 v3 v4 e praw_module st]
                by (simp add: g a1 a2 a3 a4 Inl res)
              then show ?thesis by (simp add: a1 a2 a3 a4 Inl)
            next
              case a5: (Inr v5)
              have "praw_module = None \<longrightarrow> result =
                      (Inl (ImportError
                         ''praw package not found. Please install with: pip install praw''), st)"
                using validate_environment_resolved
                  [of vals environ v1 v2 v3 v4 v5 praw_module st]
                by (simp add: g a1 a2 a3 a4 a5 res)
              then show ?thesis by (simp add: a1 a2 a3 a4 a5)
            qed
          qed
        qed
      qed
    qed
  qed
next
  assume h: "((vals ''reddit_client_id'' = None \<and> environ ''REDDIT_CLIENT_ID'' = None) \<or>
           (vals ''reddit_client_secret'' = None \<and> environ ''REDDIT_CLIENT_SECRET'' = None) \<or>
           (vals ''reddit_user_agent'' = None \<and> environ ''REDDIT_USER_AGENT'' = None) \<or>
           (vals ''reddit_username'' = None \<and> environ ''REDDIT_USERNAME'' = None) \<or>
           (vals ''reddit_password'' = None \<and> environ ''REDDIT_PASSWORD'' = None)) \<and>
          praw_module = None"
  then have "\<exists>key env_key. validate_environment environ praw_module vals st =
           (Inl (ConfigurationError key env_key), st)"
    by (intro validate_environment_missing) blast
  with assms(6) show "\<exists>key env_key. result = (Inl (ConfigurationError key env_key), st)"
    by simp
qed


theorem credentials_resolved_in_order_witness:
  "validate_environment Map.empty (None :: (nat, nat, string, string) praw option)
     (example_kwargs(''reddit_username'' := None, ''reddit_password'' := None)) start =
     (Inl (ConfigurationError ''reddit_username'' ''REDDIT_USERNAME''), start) \<and>
   validate_environment Map.empty (None :: (nat, nat, string, string) praw option)
     (Map.empty :: string \<rightharpoonup> nat pyval) start =
     (Inl (ConfigurationError ''reddit_client_id'' ''REDDIT_CLIENT_ID''), start) \<and>
   validate_environment Map.empty (None :: (nat, nat, string, string) praw option)
     example_kwargs start =
     (Inl (ImportError ''praw package not found. Please install with: pip install praw''),
      start)"
proof -
  have a: "validate_environment Map.empty (None :: (nat, nat, string, string) praw option)
     (example_kwargs(''reddit_username'' := None, ''reddit_password'' := None)) start =
     (Inl (ConfigurationError ''reddit_username'' ''REDDIT_USERNAME''), start)"
    using credentials_resolved_in_order [OF refl refl refl refl refl refl,
      where vals = "example_kwargs(''reddit_username'' := None, ''reddit_password'' := None)"
        and environ = Map.empty
        and praw_module = "None :: (nat, nat, string, string) praw option" and st = start]
    by (simp add: get_from_dict_or_env_def example_kwargs_def)
  have b: "validate_environment Map.empty (None :: (nat, nat, string, string) praw option)
     (Map.empty :: string \<rightharpoonup> nat pyval) start =
     (Inl (ConfigurationError ''reddit_client_id'' ''REDDIT_CLIENT_ID''), start)"
    using credentials_resolved_in_order [OF refl refl refl refl refl refl,
      where vals = "Map.empty :: string \<rightharpoonup> nat pyval" and environ = Map.empty
        and praw_module = "None :: (nat, nat, string, string) praw option" and st = start]
    by (simp add: get_from_dict_or_env_def)
  have c: "validate_environment Map.empty (None :: (nat, nat, string, string) praw option)
     example_kwargs start =
     (Inl (ImportError ''praw package not found. Please install with: pip install praw''),
      start)"
    using credentials_resolved_in_order [OF refl refl refl refl refl refl,
      where vals = example_kwargs and environ = Map.empty
        and praw_module = "None :: (nat, nat, string, string) praw option" and st = start]
    by (simp add: get_from_dict_or_env_def example_kwargs_def)
  from a b c show ?thesis by simp
qed

text \<open>
  Claim C5, as amended. When all five credentials resolve and praw cannot be imported, the
  construction of the wrapper fails with the \<^verbatim>\<open>ImportError\<close> (the specification's
  DependencyMissingError) whose message names the package, \<^verbatim>\<open>praw\<close>, and ends with
  the installation hint \<^verbatim>\<open>pip install praw\<close>; the I/O state is left as it was.
\<close>

theorem missing_library_fails:
  fixes praw_module :: "('w, 'c, 's, 'e) praw option"
  assumes "(get_from_dict_or_env kwargs ''reddit_client_id'' ''REDDIT_CLIENT_ID'' environ
              :: 'e exn + string) = Inr v1"
    and "(get_from_dict_or_env kwargs ''reddit_client_secret'' ''REDDIT_CLIENT_SECRET'' environ
              :: 'e exn + string) = Inr v2"
    and "(get_from_dict_or_env kwargs ''reddit_user_agent'' ''REDDIT_USER_AGENT'' environ
              :: 'e exn + string) = Inr v3"
    and "(get_from_dict_or_env kwargs ''reddit_username'' ''REDDIT_USERNAME'' environ
              :: 'e exn + string) = Inr v4"
    and "(get_from_dict_or_env kwargs ''reddit_password'' ''REDDIT_PASSWORD'' environ
              :: 'e exn + string) = Inr v5"
    and "praw_module = None"
  shows "RedditCommentAPIWrapper_init environ praw_module kwargs st =
           (Inl (ImportError (''praw'' @ '' package not found. Please install with: ''
                              @ ''pip install praw'')), st)"
  using init_no_library [OF assms] by simp

theorem missing_library_fails_witness:
  "RedditCommentAPIWrapper_init example_environ
     (None :: (nat, nat, string, string) praw option)
     (Map.empty :: string \<rightharpoonup> nat pyval) start =
   (Inl (ImportError ''praw package not found. Please install with: pip install praw''),
    start)"
proof -
  have r: "(get_from_dict_or_env (Map.empty :: string \<rightharpoonup> nat pyval) ''reddit_client_id''
              ''REDDIT_CLIENT_ID'' example_environ :: string exn + string) = Inr ''env_id''"
    "(get_from_dict_or_env (Map.empty :: string \<rightharpoonup> nat pyval) ''reddit_client_secret''
              ''REDDIT_CLIENT_SECRET'' example_environ :: string exn + string) = Inr ''env_secret''"
    "(get_from_dict_or_env (Map.empty :: string \<rightharpoonup> nat pyval) ''reddit_user_agent''
              ''REDDIT_USER_AGENT'' example_environ :: string exn + string) = Inr ''env_user_agent''"
    "(get_from_dict_or_env (Map.empty :: string \<rightharpoonup> nat pyval) ''reddit_username''
              ''REDDIT_USERNAME'' example_environ :: string exn + string) = Inr ''env_username''"
    "(get_from_dict_or_env (Map.empty :: string \<rightharpoonup> nat pyval) ''reddit_password''
              ''REDDIT_PASSWORD'' example_environ :: string exn + string) = Inr ''env_password''"
    by (simp_all add: get_from_dict_or_env_def example_environ_def)
  from missing_library_fails [OF r refl, of start] show ?thesis by simp
qed

text \<open>
  Claim C5 as it is stated, without the condition on the credentials, fails: with praw
  unavailable, no named parameter and an empty environment, the construction fails with the
  ConfigurationError of the client id and raises no \<^verbatim>\<open>ImportError\<close>.
\<close>

theorem missing_library_counterexample:
  "fst (RedditCommentAPIWrapper_init Map.empty
          (None :: (nat, nat, string, string) praw option)
          (Map.empty :: string \<rightharpoonup> nat pyval) start) =
     Inl (ConfigurationError ''reddit_client_id'' ''REDDIT_CLIENT_ID'') \<and>
   (\<forall>msg. fst (RedditCommentAPIWrapper_init Map.empty
                  (None :: (nat, nat, string, string) praw option)
                  (Map.empty :: string \<rightharpoonup> nat pyval) start) \<noteq> Inl (ImportError msg))"
  by (simp add: RedditCommentAPIWrapper_init_def validate_environment_def
        get_from_dict_or_env_def)

lemma run_factory_calls:
  "factory_calls (calls (snd (run lib self sid text st))) = factory_calls (calls st)"
  by (simp add: run_calls factory_calls_append split: sum.splits)

lemma run_lookup_handles:
  "lookup_handles (calls (snd (run lib self sid text st))) =
     lookup_handles (calls st) @ [reddit_client self]"
  by (simp add: run_calls lookup_handles_append split: sum.splits)

lemma runs_self: "fst (snd (runs lib self reqs st)) = self"
proof (induction reqs arbitrary: st)
  case Nil
  show ?case by simp
next
  case (Cons req reqs)
  obtain sid body where req: "req = (sid, body)" by (cases req)
  obtain r st1 where one: "run lib self sid body st = (r, st1)"
    by (cases "run lib self sid body st")
  obtain rs self1 st2 where rest: "runs lib self reqs st1 = (rs, self1, st2)"
    by (cases "runs lib self reqs st1")
  from Cons.IH [of st1] show ?case
    by (simp add: req one rest)
qed

lemma runs_factory_calls:
  "factory_calls (calls (snd (snd (runs lib self reqs st)))) = factory_calls (calls st)"
proof (induction reqs arbitrary: st)
  case Nil
  show ?case by simp
next
  case (Cons req reqs)
  obtain sid body where req: "req = (sid, body)" by (cases req)
  obtain r st1 where one: "run lib self sid body st = (r, st1)"
    by (cases "run lib self sid body st")
  obtain rs self1 st2 where rest: "runs lib self reqs st1 = (rs, self1, st2)"
    by (cases "runs lib self reqs st1")
  have "factory_calls (calls st1) = factory_calls (calls st)"
    using run_factory_calls [of lib self sid body st] one by simp
  with Cons.IH [of st1] show ?case
    by (simp add: req one rest)
qed

lemma runs_lookup_handles:
  "lookup_handles (calls (snd (snd (runs lib self reqs st)))) =
     lookup_handles (calls st) @ replicate (length reqs) (reddit_client self)"
proof (induction reqs arbitrary: st)
  case Nil
  show ?case by simp
next
  case (Cons req reqs)
  obtain sid body where req: "req = (sid, body)" by (cases req)
  obtain r st1 where one: "run lib self sid body st = (r, st1)"
    by (cases "run lib self sid body st")
  obtain rs self1 st2 where rest: "runs lib self reqs st1 = (rs, self1, st2)"
    by (cases "runs lib self reqs st1")
  have "lookup_handles (calls st1) = lookup_handles (calls st) @ [reddit_client self]"
    using run_lookup_handles [of lib self sid body st] one by simp
  with Cons.IH [of st1] show ?case
    by (simp add: req one rest)
qed

text \<open>
  Claim C4, as amended. When all five credentials resolve and praw can be imported, the
  construction of the wrapper makes exactly one call of the session factory, with the five
  resolved values, at construction time: the log grows by that one call, whatever the
  factory answers. When the factory returns the handle \<open>c\<close>, the construction succeeds
  and the wrapper stores \<open>c\<close> and the five values. Every later sequence of
  \<^verbatim>\<open>run\<close> calls leaves the wrapper's fields as they are, makes no call of the
  session factory (the log holds the one call of the construction beyond those made before
  it), and issues each of its lookups on the handle \<open>c\<close>.
\<close>

theorem one_session_handle:
  fixes lib :: "('w, 'c, 's, 'e) praw"
  assumes "(get_from_dict_or_env kwargs ''reddit_client_id'' ''REDDIT_CLIENT_ID'' environ
              :: 'e exn + string) = Inr v1"
    and "(get_from_dict_or_env kwargs ''reddit_client_secret'' ''REDDIT_CLIENT_SECRET'' environ
              :: 'e exn + string) = Inr v2"
    and "(get_from_dict_or_env kwargs ''reddit_user_agent'' ''REDDIT_USER_AGENT'' environ
              :: 'e exn + string) = Inr v3"
    and "(get_from_dict_or_env kwargs ''reddit_username'' ''REDDIT_USERNAME'' environ
              :: 'e exn + string) = Inr v4"
    and "(get_from_dict_or_env kwargs ''reddit_password'' ''REDDIT_PASSWORD'' environ
              :: 'e exn + string) = Inr v5"
    and "praw_module = Some lib"
    and "self = \<lparr>reddit_client = c, reddit_client_id = Some v1, reddit_client_secret = Some v2,
                  reddit_user_agent = Some v3, reddit_username = Some v4,
                  reddit_password = Some v5\<rparr>"
    and "st1 = \<lparr>calls = calls st @ [Call_Reddit v1 v2 v3 v4 v5], world = w1\<rparr>"
  shows "calls (snd (RedditCommentAPIWrapper_init environ praw_module kwargs st)) =
           calls st @ [Call_Reddit v1 v2 v3 v4 v5] \<and>
         factory_calls (calls (snd (RedditCommentAPIWrapper_init environ praw_module kwargs st))) =
           factory_calls (calls st) + 1 \<and>
         (Reddit lib v1 v2 v3 v4 v5 (world st) = (Inr c, w1) \<longrightarrow>
            RedditCommentAPIWrapper_init environ praw_module kwargs st = (Inr self, st1) \<and>
            (\<forall>reqs.
               fst (snd (runs lib self reqs st1)) = self \<and>
               factory_calls (calls (snd (snd (runs lib self reqs st1)))) =
                 factory_calls (calls st) + 1 \<and>
               lookup_handles (calls (snd (snd (runs lib self reqs st1)))) =
                 lookup_handles (calls st) @ replicate (length reqs) c))"
proof -
  have init: "RedditCommentAPIWrapper_init environ praw_module kwargs st =
    (case Reddit lib v1 v2 v3 v4 v5 (world st) of
       (Inl e, w1) \<Rightarrow>
         (Inl (PrawException e),
          \<lparr>calls = calls st @ [Call_Reddit v1 v2 v3 v4 v5], world = w1\<rparr>)
     | (Inr c, w1) \<Rightarrow>
         (Inr \<lparr>reddit_client = c, reddit_client_id = Some v1, reddit_client_secret = Some v2,
               reddit_user_agent = Some v3, reddit_username = Some v4,
               reddit_password = Some v5\<rparr>,
          \<lparr>calls = calls st @ [Call_Reddit v1 v2 v3 v4 v5], world = w1\<rparr>))"
    unfolding assms(6) by (rule init_resolved [OF assms(1-5)])
  have log: "calls (snd (RedditCommentAPIWrapper_init environ praw_module kwargs st)) =
               calls st @ [Call_Reddit v1 v2 v3 v4 v5]"
    unfolding init by (simp split: prod.splits sum.splits)
  have count: "factory_calls (calls (snd (RedditCommentAPIWrapper_init environ praw_module
                 kwargs st))) = factory_calls (calls st) + 1"
    unfolding log by (simp add: factory_calls_append)
  have later: "Reddit lib v1 v2 v3 v4 v5 (world st) = (Inr c, w1) \<longrightarrow>
            RedditCommentAPIWrapper_init environ praw_module kwargs st = (Inr self, st1) \<and>
            (\<forall>reqs.
               fst (snd (runs lib self reqs st1)) = self \<and>
               factory_calls (calls (snd (snd (runs lib self reqs st1)))) =
                 factory_calls (calls st) + 1 \<and>
               lookup_handles (calls (snd (snd (runs lib self reqs st1)))) =
                 lookup_handles (calls st) @ replicate (length reqs) c)"
  proof
    assume ok: "Reddit lib v1 v2 v3 v4 v5 (world st) = (Inr c, w1)"
    have made: "RedditCommentAPIWrapper_init environ praw_module kwargs st = (Inr self, st1)"
      unfolding init by (simp add: ok assms(7) assms(8))
    have f1: "factory_calls (calls st1) = factory_calls (calls st) + 1"
      by (simp add: assms(8) factory_calls_append)
    have l1: "lookup_handles (calls st1) = lookup_handles (calls st)"
      by (simp add: assms(8) lookup_handles_append)
    have c: "reddit_client self = c"
      by (simp add: assms(7))
    show "RedditCommentAPIWrapper_init environ praw_module kwargs st = (Inr self, st1) \<and>
            (\<forall>reqs.
               fst (snd (runs lib self reqs st1)) = self \<and>
               factory_calls (calls (snd (snd (runs lib self reqs st1)))) =
                 factory_calls (calls st) + 1 \<and>
               lookup_handles (calls (snd (snd (runs lib self reqs st1)))) =
                 lookup_handles (calls st) @ replicate (length reqs) c)"
      by (simp add: made runs_self runs_factory_calls runs_lookup_handles f1 l1 c)
  qed
  from log count later show ?thesis by blast
qed


lemma example_kwargs_resolve:
  "(get_from_dict_or_env example_kwargs ''reddit_client_id'' ''REDDIT_CLIENT_ID'' Map.empty
      :: string exn + string) = Inr ''my_id''"
  "(get_from_dict_or_env example_kwargs ''reddit_client_secret'' ''REDDIT_CLIENT_SECRET'' Map.empty
      :: string exn + string) = Inr ''my_secret''"
  "(get_from_dict_or_env example_kwargs ''reddit_user_agent'' ''REDDIT_USER_AGENT'' Map.empty
      :: string exn + string) = Inr ''my_user_agent''"
  "(get_from_dict_or_env example_kwargs ''reddit_username'' ''REDDIT_USERNAME'' Map.empty
      :: string exn + string) = Inr ''my_username''"
  "(get_from_dict_or_env example_kwargs ''reddit_password'' ''REDDIT_PASSWORD'' Map.empty
      :: string exn + string) = Inr ''my_password''"
  by (simp_all add: get_from_dict_or_env_def example_kwargs_def)

theorem one_session_handle_witness:
  "RedditCommentAPIWrapper_init Map.empty (Some example_praw) example_kwargs start =
     (Inr example_wrapper,
      \<lparr>calls = [Call_Reddit ''my_id'' ''my_secret'' ''my_user_agent'' ''my_username''
                  ''my_password''],
       world = 0\<rparr>) \<and>
   fst (snd (runs example_praw example_wrapper
              [(''abc123'', ''Hello''), (''abc123'', ''Again'')]
              \<lparr>calls = [Call_Reddit ''my_id'' ''my_secret'' ''my_user_agent'' ''my_username''
                          ''my_password''],
               world = 0\<rparr>)) = example_wrapper \<and>
   factory_calls (calls (snd (snd (runs example_praw example_wrapper
              [(''abc123'', ''Hello''), (''abc123'', ''Again'')]
              \<lparr>calls = [Call_Reddit ''my_id'' ''my_secret'' ''my_user_agent'' ''my_username''
                          ''my_password''],
               world = 0\<rparr>)))) = 1 \<and>
   lookup_handles (calls (snd (snd (runs example_praw example_wrapper
              [(''abc123'', ''Hello''), (''abc123'', ''Again'')]
              \<lparr>calls = [Call_Reddit ''my_id'' ''my_secret'' ''my_user_agent'' ''my_username''
                          ''my_password''],
               world = 0\<rparr>)))) = [1, 1]"
proof -
  have self: "example_wrapper =
      \<lparr>reddit_client = 1, reddit_client_id = Some ''my_id'',
       reddit_client_secret = Some ''my_secret'', reddit_user_agent = Some ''my_user_agent'',
       reddit_username = Some ''my_username'', reddit_password = Some ''my_password''\<rparr>"
    by (simp add: example_wrapper_def)
  have st1: "\<lparr>calls = [Call_Reddit ''my_id'' ''my_secret'' ''my_user_agent'' ''my_username''
                         ''my_password''],
              world = 0\<rparr> =
             \<lparr>calls = calls start @ [Call_Reddit ''my_id'' ''my_secret'' ''my_user_agent''
                                       ''my_username'' ''my_password''],
              world = (0::nat)\<rparr>"
    by (simp add: start_def)
  have made: "Reddit example_praw ''my_id'' ''my_secret'' ''my_user_agent'' ''my_username''
                ''my_password'' (world start) = (Inr 1, 0)"
    by (simp add: example_praw_def start_def)
  note inst = one_session_handle [where lib = example_praw and st = start,
      OF example_kwargs_resolve refl self st1]
  from inst made
  have a: "RedditCommentAPIWrapper_init Map.empty (Some example_praw) example_kwargs start =
     (Inr example_wrapper,
      \<lparr>calls = [Call_Reddit ''my_id'' ''my_secret'' ''my_user_agent'' ''my_username''
                  ''my_password''],
       world = 0\<rparr>)"
    by blast
  from inst made
  have b: "\<forall>reqs.
       fst (snd (runs example_praw example_wrapper reqs
              \<lparr>calls = [Call_Reddit ''my_id'' ''my_secret'' ''my_user_agent'' ''my_username''
                          ''my_password''],
               world = 0\<rparr>)) = example_wrapper \<and>
       factory_calls (calls (snd (snd (runs example_praw example_wrapper reqs
              \<lparr>calls = [Call_Reddit ''my_id'' ''my_secret'' ''my_user_agent'' ''my_username''
                          ''my_password''],
               world = 0\<rparr>)))) = factory_calls (calls start) + 1 \<and>
       lookup_handles (calls (snd (snd (runs example_praw example_wrapper reqs
              \<lparr>calls = [Call_Reddit ''my_id'' ''my_secret'' ''my_user_agent'' ''my_username''
                          ''my_password''],
               world = 0\<rparr>)))) = lookup_handles (calls start) @ replicate (length reqs) 1"
    by blast
  have n: "replicate (length [(''abc123'', ''Hello''), (''abc123'', ''Again'')]) (1::nat) = [1, 1]"
    by simp
  from b [rule_format, of "[(''abc123'', ''Hello''), (''abc123'', ''Again'')]"] a n
  show ?thesis
    by (simp add: start_def)
qed

text \<open>
  Claim C4 as it is stated, with the credentials as its only condition, fails: with all
  five credentials given and praw unavailable, the construction raises the
  \<^verbatim>\<open>ImportError\<close>, no wrapper is made and the session factory is not called.
\<close>

theorem one_session_handle_counterexample:
  "(get_from_dict_or_env example_kwargs ''reddit_client_id'' ''REDDIT_CLIENT_ID'' Map.empty
      :: string exn + string) = Inr ''my_id'' \<and>
   (get_from_dict_or_env example_kwargs ''reddit_client_secret'' ''REDDIT_CLIENT_SECRET'' Map.empty
      :: string exn + string) = Inr ''my_secret'' \<and>
   (get_from_dict_or_env example_kwargs ''reddit_user_agent'' ''REDDIT_USER_AGENT'' Map.empty
      :: string exn + string) = Inr ''my_user_agent'' \<and>
   (get_from_dict_or_env example_kwargs ''reddit_username'' ''REDDIT_USERNAME'' Map.empty
      :: string exn + string) = Inr ''my_username'' \<and>
   (get_from_dict_or_env example_kwargs ''reddit_password'' ''REDDIT_PASSWORD'' Map.empty
      :: string exn + string) = Inr ''my_password'' \<and>
   RedditCommentAPIWrapper_init Map.empty (None :: (nat, nat, string, string) praw option)
     example_kwargs start =
     (Inl (ImportError ''praw package not found. Please install with: pip install praw''),
      start) \<and>
   factory_calls (calls (snd (RedditCommentAPIWrapper_init Map.empty
     (None :: (nat, nat, string, string) praw option) example_kwargs start))) = 0"
proof -
  have "RedditCommentAPIWrapper_init Map.empty (None :: (nat, nat, string, string) praw option)
     example_kwargs start =
     (Inl (ImportError ''praw package not found. Please install with: pip install praw''),
      start)"
    by (rule init_no_library [OF example_kwargs_resolve refl])
  then show ?thesis
    by (simp add: example_kwargs_resolve) (simp add: start_def)
qed

section \<open>The tool\<close>

lemma RedditCommentRun_init_fields:
  "fst (RedditCommentRun_init environ praw_module given st0) = Inr tool \<Longrightarrow>
   \<exists>w. tool = RedditCommentRun_fields w"
  by (auto simp add: RedditCommentRun_init_def split: option.splits prod.splits sum.splits)

lemma validate_input_schema_missing:
  "tool_input ''submission_id'' = None \<or> tool_input ''comment_text'' = None \<Longrightarrow>
   \<exists>field. validate_input RedditCommentSchema tool_input = Inl (ValidationError field)"
  by (auto simp add: RedditCommentSchema_def split: option.splits pyval.splits sum.splits)

lemma validate_input_schema_strings:
  "tool_input ''submission_id'' = Some (PyStr sid) \<Longrightarrow>
   tool_input ''comment_text'' = Some (PyStr body) \<Longrightarrow>
   validate_input RedditCommentSchema tool_input =
     Inr [''comment_text'' \<mapsto> body, ''submission_id'' \<mapsto> sid]"
  by (simp add: RedditCommentSchema_def)

text \<open>
  Claim C6. A constructed tool is named \<^verbatim>\<open>reddit_comment\<close>, and its input schema has
  exactly the two fields \<^verbatim>\<open>submission_id\<close> and \<^verbatim>\<open>comment_text\<close>, both of
  type string and both required. An invocation whose input lacks either field fails the
  schema validation and leaves the I/O state as it was, so no remote call has been made;
  an invocation that gives both strings is the wrapper's \<^verbatim>\<open>run\<close> on them.
\<close>

theorem tool_schema:
  assumes "fst (RedditCommentRun_init environ praw_module given st0) = Inr tool"
  shows "name tool = ''reddit_comment'' \<and>
         map field_name (args_schema tool) = [''submission_id'', ''comment_text''] \<and>
         map annotation (args_schema tool) = [Str_type, Str_type] \<and>
         map is_required (args_schema tool) = [True, True] \<and>
         (tool_input ''submission_id'' = None \<or> tool_input ''comment_text'' = None \<longrightarrow>
            (\<exists>field. invoke lib tool tool_input run_manager st =
                       (Inl (ValidationError field), st))) \<and>
         (tool_input ''submission_id'' = Some (PyStr sid) \<and>
          tool_input ''comment_text'' = Some (PyStr body) \<longrightarrow>
            invoke lib tool tool_input run_manager st =
              run lib (api_wrapper tool) sid body st)"
proof -
  from RedditCommentRun_init_fields [OF assms]
  obtain w where tool: "tool = RedditCommentRun_fields w" by blast
  have schema: "args_schema tool = RedditCommentSchema"
    by (simp add: tool RedditCommentRun_fields_def)
  have n: "name tool = ''reddit_comment''"
    by (simp add: tool RedditCommentRun_fields_def)
  have f: "map field_name (args_schema tool) = [''submission_id'', ''comment_text'']"
    "map annotation (args_schema tool) = [Str_type, Str_type]"
    "map is_required (args_schema tool) = [True, True]"
    by (simp_all add: schema RedditCommentSchema_def is_required_def)
  have missing: "tool_input ''submission_id'' = None \<or> tool_input ''comment_text'' = None \<longrightarrow>
            (\<exists>field. invoke lib tool tool_input run_manager st =
                       (Inl (ValidationError field), st))"
  proof
    assume "tool_input ''submission_id'' = None \<or> tool_input ''comment_text'' = None"
    from validate_input_schema_missing [OF this]
    obtain field where
      "(validate_input RedditCommentSchema tool_input :: 'e exn + (string \<rightharpoonup> string)) =
         Inl (ValidationError field)"
      by blast
    then have "invoke lib tool tool_input run_manager st = (Inl (ValidationError field), st)"
      by (simp add: invoke_def schema)
    then show "\<exists>field. invoke lib tool tool_input run_manager st =
                       (Inl (ValidationError field), st)"
      by blast
  qed
  have given: "tool_input ''submission_id'' = Some (PyStr sid) \<and>
          tool_input ''comment_text'' = Some (PyStr body) \<longrightarrow>
            invoke lib tool tool_input run_manager st =
              run lib (api_wrapper tool) sid body st"
    by (simp add: invoke_def schema validate_input_schema_strings RedditCommentRun_run_def)
  from n f missing given show ?thesis by blast
qed

theorem tool_schema_witness:
  "name (RedditCommentRun_fields example_wrapper) = ''reddit_comment'' \<and>
   map field_name (args_schema (RedditCommentRun_fields example_wrapper)) =
     [''submission_id'', ''comment_text''] \<and>
   invoke example_praw (RedditCommentRun_fields example_wrapper)
     [''submission_id'' \<mapsto> PyStr ''abc123''] (None :: unit option) start =
     (Inl (ValidationError ''comment_text''), start) \<and>
   invoke example_praw (RedditCommentRun_fields example_wrapper)
     [''comment_text'' \<mapsto> PyStr ''Hello''] (None :: unit option) start =
     (Inl (ValidationError ''submission_id''), start) \<and>
   invoke example_praw (RedditCommentRun_fields example_wrapper)
     [''submission_id'' \<mapsto> PyStr ''abc123'', ''comment_text'' \<mapsto> PyStr ''Hello'']
     (None :: unit option) start =
     run example_praw example_wrapper ''abc123'' ''Hello'' start"
proof -
  have made: "fst (RedditCommentRun_init Map.empty (Some example_praw) (Some example_wrapper)
                start) = Inr (RedditCommentRun_fields example_wrapper)"
    by (simp add: RedditCommentRun_init_def)
  have w: "api_wrapper (RedditCommentRun_fields example_wrapper) = example_wrapper"
    by (simp add: RedditCommentRun_fields_def)
  have a: "invoke example_praw (RedditCommentRun_fields example_wrapper)
     [''submission_id'' \<mapsto> PyStr ''abc123''] (None :: unit option) start =
     (Inl (ValidationError ''comment_text''), start)"
    by (simp add: invoke_def RedditCommentRun_fields_def RedditCommentSchema_def)
  have b: "invoke example_praw (RedditCommentRun_fields example_wrapper)
     [''comment_text'' \<mapsto> PyStr ''Hello''] (None :: unit option) start =
     (Inl (ValidationError ''submission_id''), start)"
    by (simp add: invoke_def RedditCommentRun_fields_def RedditCommentSchema_def)
  note inst = tool_schema [OF made,
      where tool_input = "[''submission_id'' \<mapsto> PyStr ''abc123'', ''comment_text'' \<mapsto> PyStr ''Hello'']"
        and sid = "''abc123''" and body = "''Hello''" and lib = example_praw
        and run_manager = "None :: unit option" and st = start]
  note miss = tool_schema [OF made,
      where tool_input = "[''submission_id'' \<mapsto> PyStr ''abc123'']" and lib = example_praw
        and run_manager = "None :: unit option" and st = start]
  from inst miss a b w show ?thesis by simp
qed

end
